theory Spec2Isabelle
  imports Main "HOL-Library.Multiset" "HOL-Library.AList" "HOL-Library.List_Lexorder"
    "HOL-Library.Char_ord"
begin

section \<open>Data model\<close>

text \<open>
  The server of \<^verbatim>\<open>gameapi/handler.go\<close>. Go's \<^verbatim>\<open>int\<close> and \<^verbatim>\<open>int64\<close> values are
  modelled as \<open>int\<close>: the JSON decoder refuses a number that does not fit, which is the
  \<open>None\<close> request below, and the handlers only compare these values or add one to a
  slice length. A \<^verbatim>\<open>time.Time\<close> is the number of nanoseconds since a fixed epoch.
\<close>

type_synonym Seed = int
type_synonym Time = int
type_synonym color = int

definition Hour :: int where
  "Hour = 3600 * 1000000000"

text \<open>
  \<^verbatim>\<open>math/rand\<close> is the Go standard library, not this repository. A \<^verbatim>\<open>*rand.Rand\<close> is
  modelled by the sequence of raw values it is going to produce; a call takes the head
  of the sequence, reduced into the range the library guarantees for that call, and
  leaves the tail. \<^verbatim>\<open>Int63n\<close> panics on a bound that is not positive, as the library does.
\<close>

type_synonym Rand = "nat \<Rightarrow> int"

definition Int63 :: "Rand \<Rightarrow> int \<times> Rand" where
  "Int63 r = (r 0 mod 2 ^ 63, \<lambda>i. r (Suc i))"

definition Int63n :: "Rand \<Rightarrow> int \<Rightarrow> (int \<times> Rand) option" where
  "Int63n r n = (if n \<le> 0 then None else Some (r 0 mod n, \<lambda>i. r (Suc i)))"

definition Intn :: "Rand \<Rightarrow> nat \<Rightarrow> nat \<times> Rand" where
  "Intn r n = (nat (r 0 mod int n), \<lambda>i. r (Suc i))"

text \<open>
  Modelled from the spec: the type \<^verbatim>\<open>Player\<close>, declared outside \<^verbatim>\<open>handler.go\<close>.
  \<^verbatim>\<open>Player{LastSeen: p.LastSeen}\<close> in \<^verbatim>\<open>handleNewGame\<close> shows the one field that the
  handler names; team and display name are the other fields the spec gives a player,
  and the id of a player is the key under which the game holds it.
\<close>

record Player =
  LastSeen :: Time
  PlayerTeam :: int
  PlayerName :: string

text \<open>
  Modelled from the spec: the tile of a board, declared outside \<^verbatim>\<open>handler.go\<close>: "word,
  color (immutable post-assignment), revealed (mutable)".
\<close>

record Tile =
  Word :: string
  Color :: color
  Revealed :: bool

text \<open>
  Modelled from the spec: the type \<^verbatim>\<open>Event\<close>, declared outside \<^verbatim>\<open>handler.go\<close>. The
  handlers set \<^verbatim>\<open>Type\<close>, \<^verbatim>\<open>Team\<close>, \<^verbatim>\<open>PlayerID\<close>, \<^verbatim>\<open>Name\<close> and \<^verbatim>\<open>Message\<close>; the spec adds
  the sequence number and the payload of a guess, the index of its tile.
\<close>

record Event =
  Number :: int
  Type :: string
  Team :: int
  PlayerID :: string
  Name :: string
  Message :: string
  Index :: int

text \<open>
  Modelled from the spec: the type \<^verbatim>\<open>Game\<close>, declared outside \<^verbatim>\<open>handler.go\<close>, which
  reads its fields \<^verbatim>\<open>Seed\<close>, \<^verbatim>\<open>CreatedAt\<close> and \<^verbatim>\<open>players\<close>; the spec adds the tiles,
  the event log and the notification signal. The players are a Go map keyed by player
  id, modelled as an association list: \<open>AList.update\<close> is the assignment
  \<^verbatim>\<open>players[id] = p\<close>, \<open>length\<close> is \<^verbatim>\<open>len(players)\<close>. The signal is a one-shot channel
  that is retired and replaced; \<open>notify\<close> counts the signals retired so far, so it
  identifies the one installed now.
\<close>

record Game =
  Seed :: Seed
  CreatedAt :: Time
  Tiles :: "Tile list"
  players :: "(string \<times> Player) list"
  Events :: "Event list"
  notify :: nat

text \<open>
  Modelled from the spec: the value that \<^verbatim>\<open>NewState\<close> returns and \<^verbatim>\<open>ReconstructGame\<close>
  takes, declared outside \<^verbatim>\<open>handler.go\<close>: the two inputs of the board generator.
\<close>

record GameState =
  StateSeed :: Seed
  StateWords :: "string list"

text \<open>
  Package-level values that \<^verbatim>\<open>handler.go\<close> uses and does not declare: the colour
  distribution, the derivation of a pseudo-random source from a seed, and the idle
  threshold of a player. They are parameters of the model.
\<close>

record config =
  colorDistribution :: "color list"
  NewSource :: "Seed \<Rightarrow> Rand"
  idleThreshold :: Time

record handler =
  wordLists :: "(string \<times> string list) list"
  allWords :: "string list"
  rand :: Rand
  games :: "string \<rightharpoonup> Game"

text \<open>The request bodies, with the field names of their JSON tags.\<close>

record new_game_body =
  game_id :: string
  words :: "string list"
  prev_seed :: "Seed option"

record action_body =
  game_id :: string
  seed :: Seed
  player_id :: string
  name :: string
  team :: int

record guess_body = action_body +
  index :: int

record chat_body = action_body +
  message :: string

record events_body = action_body +
  last_event :: int

text \<open>
  What a handler writes: \<open>Error code status\<close> is \<^verbatim>\<open>writeError\<close> (the message text is
  left out), the other constructors are the values given to \<^verbatim>\<open>writeJSON\<close>. \<open>Waiting ch\<close>
  is the long poll of \<^verbatim>\<open>handleEvents\<close> blocking on the signal \<open>ch\<close>; what it answers
  after waking depends on the other requests in flight.
\<close>

datatype response =
  Error string nat
  | GameSnapshot Game
  | StatusOk
  | GameUpdate Seed "Event list"
  | Waiting nat
  | AutogeneratedID string

datatype game_error = IndexOutOfBounds

datatype 'a outcome = Panic | Diverge | Return 'a

section \<open>Board generation\<close>

definition swap :: "'a list \<Rightarrow> nat \<Rightarrow> nat \<Rightarrow> 'a list" where
  "swap xs i j = xs[i := xs ! j, j := xs ! i]"

text \<open>
  Modelled from the spec: the uniform shuffle of the board generator, whose code is not
  in \<^verbatim>\<open>handler.go\<close>. It is the Fisher-Yates shuffle: for \<open>i\<close> from the last position
  down to 1, exchange position \<open>i\<close> with a position drawn from \<open>0..i\<close>.
\<close>

fun fisher_yates :: "nat \<Rightarrow> Rand \<Rightarrow> 'a list \<Rightarrow> 'a list \<times> Rand" where
  "fisher_yates 0 r xs = (xs, r)"
| "fisher_yates (Suc i) r xs =
     (case Intn r (Suc (Suc i)) of (j, r') \<Rightarrow> fisher_yates i r' (swap xs (Suc i) j))"

text \<open>
  Modelled from the spec: the uniform shuffle of a whole list, the walk above started at
  the last position.
\<close>

definition shuffle :: "Rand \<Rightarrow> 'a list \<Rightarrow> 'a list \<times> Rand" where
  "shuffle r xs = fisher_yates (length xs - 1) r xs"

text \<open>
  Modelled from the spec: the board generator, whose code is not in \<^verbatim>\<open>handler.go\<close>.
  "Derive a seeded pseudo-random source from Seed; perform a uniform shuffle over word
  indices and take the first N; independently shuffle the ColorDistribution multiset
  with the same source; zip positionally."
\<close>

definition BoardGenerator :: "config \<Rightarrow> Seed \<Rightarrow> string list \<Rightarrow> Tile list" where
  "BoardGenerator cfg s ws =
     (case shuffle (NewSource cfg s) [0..<length ws] of (perm, r1) \<Rightarrow>
      case shuffle r1 (colorDistribution cfg) of (colors, r2) \<Rightarrow>
        map (\<lambda>(i, c). \<lparr>Word = ws ! i, Color = c, Revealed = False\<rparr>)
          (zip (take (length (colorDistribution cfg)) perm) colors))"

text \<open>
  Modelled from the spec: \<^verbatim>\<open>NewState\<close>, which \<^verbatim>\<open>handleNewGame\<close> calls and
  \<^verbatim>\<open>handler.go\<close> does not define. A state is the seed and the word list that the board
  generator takes.
\<close>

definition NewState :: "Seed \<Rightarrow> string list \<Rightarrow> GameState" where
  "NewState s ws = \<lparr>StateSeed = s, StateWords = ws\<rparr>"

text \<open>
  Modelled from the spec: \<^verbatim>\<open>ReconstructGame\<close>, which \<^verbatim>\<open>handleNewGame\<close> calls and
  \<^verbatim>\<open>handler.go\<close> does not define. The game of a state has the seed of the state, the
  board generated from it, no player and no event; the handler sets its creation time.
\<close>

definition ReconstructGame :: "config \<Rightarrow> GameState \<Rightarrow> Game" where
  "ReconstructGame cfg st =
     \<lparr>Seed = StateSeed st, CreatedAt = 0,
      Tiles = BoardGenerator cfg (StateSeed st) (StateWords st),
      players = [], Events = [], notify = 0\<rparr>"

section \<open>Operations of a game\<close>

text \<open>
  Modelled from the spec: the methods of \<^verbatim>\<open>Game\<close>, which \<^verbatim>\<open>handler.go\<close> calls and does
  not define. Each definition follows the sentence of the spec that describes it.
\<close>

text \<open>Modelled from the spec: "fires the outgoing Game's own signal".\<close>

definition notifyAll :: "Game \<Rightarrow> Game" where
  "notifyAll g = g\<lparr>notify := Suc (notify g)\<rparr>"

text \<open>
  Modelled from the spec: "idempotent upsert of the Player entry; always succeeds; no
  event emitted".
\<close>

definition markSeen :: "Game \<Rightarrow> string \<Rightarrow> string \<Rightarrow> int \<Rightarrow> Time \<Rightarrow> Game" where
  "markSeen g pid nm tm now =
     g\<lparr>players := AList.update pid \<lparr>LastSeen = now, PlayerTeam = tm, PlayerName = nm\<rparr> (players g)\<rparr>"

text \<open>
  Modelled from the spec: "assigns the next sequence number, appends to the log, and
  releases all current long-poll waiters by retiring the current notification signal and
  installing a fresh one".
\<close>

definition addEvent :: "Game \<Rightarrow> Event \<Rightarrow> Game" where
  "addEvent g evt =
     notifyAll (g\<lparr>Events := Events g @ [evt\<lparr>Number := int (length (Events g)) + 1\<rparr>]\<rparr>)"

text \<open>
  Modelled from the spec: "returns all events with sequence number > n (possibly empty)
  together with the currently-active notification signal".
\<close>

definition eventsSince :: "Game \<Rightarrow> int \<Rightarrow> Event list \<times> nat" where
  "eventsSince g n = (filter (\<lambda>e. n < Number e) (Events g), notify g)"

text \<open>
  Modelled from the spec: "validates index is within board bounds (else reject, no
  mutation); calls markSeen; flips the tile's revealed flag (repeat guesses on an
  already-revealed tile are accepted as a no-op on state but still appended as an
  event); appends a guess event".
\<close>

definition guess :: "Game \<Rightarrow> string \<Rightarrow> string \<Rightarrow> int \<Rightarrow> int \<Rightarrow> Time \<Rightarrow> game_error + Game" where
  "guess g pid nm tm idx now =
     (if idx < 0 \<or> int (length (Tiles g)) \<le> idx then Inl IndexOutOfBounds
      else
        let g1 = markSeen g pid nm tm now;
            g2 = g1\<lparr>Tiles := (Tiles g1)[nat idx := (Tiles g1 ! nat idx)\<lparr>Revealed := True\<rparr>]\<rparr>
        in Inr (addEvent g2
             \<lparr>Number = 0, Type = ''guess'', Team = tm, PlayerID = pid, Name = nm,
              Message = [], Index = idx\<rparr>))"

text \<open>
  Modelled from the spec: "removes Players whose last-seen exceeds idleThreshold;
  returns remaining count; never emits an event".
\<close>

definition pruneOldPlayers :: "config \<Rightarrow> Game \<Rightarrow> Time \<Rightarrow> Game \<times> int" where
  "pruneOldPlayers cfg g now =
     (let ps = filter (\<lambda>(pid, p). \<not> idleThreshold cfg < now - LastSeen p) (players g)
      in (g\<lparr>players := ps\<rparr>, int (length ps)))"

section \<open>The handlers\<close>

text \<open>
  A handler takes the state of the server and the decoded body of the request, \<open>None\<close>
  when \<^verbatim>\<open>json.Decode\<close> returned an error, and returns what it writes and the state it
  leaves. Each reading of \<^verbatim>\<open>time.Now()\<close> is an argument. The mutexes are not modelled:
  a handler runs from its first lock to its answer as one step. \<^verbatim>\<open>handleStats\<close> and the
  headers that \<^verbatim>\<open>ServeHTTP\<close> sets read the state and change nothing; they are left out.
\<close>

text \<open>\<^verbatim>\<open>strings.ToLower\<close>, on the ASCII letters.\<close>

definition ToLower :: "string \<Rightarrow> string" where
  "ToLower s =
     map (\<lambda>c. if (65::nat) \<le> of_char c \<and> of_char c \<le> (90::nat)
               then char_of (of_char c + (32::nat)) else c) s"

text \<open>
  \<^verbatim>\<open>Handler\<close>: the combined word list holds every word once, sorted; no game yet. The
  random source is seeded from the clock, so it is an argument.
\<close>

definition Handler :: "(string \<times> string list) list \<Rightarrow> Rand \<Rightarrow> handler" where
  "Handler wl r =
     \<lparr>wordLists = wl,
      allWords = sort (fold (\<lambda>w acc. if w \<in> set acc then acc else acc @ [w])
                         (concat (map snd wl)) []),
      rand = r, games = Map.empty\<rparr>"

text \<open>
  The periodic sweep, one tick of it: \<open>now\<close> is the time of the tick, \<open>clock gid\<close> the
  reading of \<^verbatim>\<open>time.Now()\<close> when the loop visits the game \<open>gid\<close>. The loop treats each
  key on its own, so the new map is given key by key.
\<close>

definition sweep :: "config \<Rightarrow> Time \<Rightarrow> (string \<Rightarrow> Time) \<Rightarrow> handler \<Rightarrow> handler" where
  "sweep cfg now clock h =
     h\<lparr>games := (\<lambda>gid.
          case games h gid of
            None \<Rightarrow> None
          | Some g \<Rightarrow>
              (case pruneOldPlayers cfg g now of (g', remaining) \<Rightarrow>
                 if remaining > 0 then Some g'
                 else if CreatedAt g' + 24 * Hour > clock gid then Some g'
                 else None))\<rparr>"

text \<open>
  \<^verbatim>\<open>handleIndex\<close>. The variable \<open>ident\<close> is the \<^verbatim>\<open>id\<close> declared before the loop; the
  \<^verbatim>\<open>id\<close> declared with \<^verbatim>\<open>:=\<close> inside the loop is \<open>cand\<close>. The loop has no bound, so the
  model counts its iterations down from a fuel and answers \<open>Diverge\<close> at zero.
\<close>

fun index_loop :: "nat \<Rightarrow> handler \<Rightarrow> string \<Rightarrow> (string \<times> handler) outcome" where
  "index_loop 0 h ident = Diverge"
| "index_loop (Suc fuel) h ident =
     (case Int63n (rand h) (int (length (allWords h))) of
        None \<Rightarrow> Panic
      | Some (i1, r1) \<Rightarrow>
          (case Int63n r1 (int (length (allWords h))) of
             None \<Rightarrow> Panic
           | Some (i2, r2) \<Rightarrow>
               let w1 = ToLower (allWords h ! nat i1);
                   w2 = ToLower (allWords h ! nat i2);
                   cand = w1 @ ''-'' @ w2;
                   h' = h\<lparr>rand := r2\<rparr>
               in if games h' cand = None then Return (ident, h')
                  else index_loop fuel h' ident))"

definition handleIndex :: "nat \<Rightarrow> handler \<Rightarrow> (response \<times> handler) outcome" where
  "handleIndex fuel h =
     (case index_loop fuel h [] of
        Panic \<Rightarrow> Panic
      | Diverge \<Rightarrow> Diverge
      | Return (ident, h') \<Rightarrow> Return (AutogeneratedID ident, h'))"

text \<open>
  \<^verbatim>\<open>handleNewGame\<close> from line 145 on, once the guard on the previous seed has passed.
  The call \<^verbatim>\<open>oldGame.notifyAll()\<close> wakes the requests that wait on the old game; the old
  game leaves the registry in the same step, so its signal is not part of the new state.
\<close>

definition createGame ::
  "config \<Rightarrow> Time \<Rightarrow> handler \<Rightarrow> new_game_body \<Rightarrow> Game option \<Rightarrow> response \<times> handler" where
  "createGame cfg now h body oldGame =
     (let ws = (if length (words body) = 0 then allWords h else words body) in
      if length ws < length (colorDistribution cfg) then (Error ''too_few_words'' 400, h)
      else
        case Int63 (rand h) of (s, r') \<Rightarrow>
          let game = ReconstructGame cfg (NewState s ws);
              game' = (case oldGame of
                         None \<Rightarrow> game
                       | Some og \<Rightarrow>
                           game\<lparr>players :=
                             fold (\<lambda>(pid, p). AList.update pid
                                     \<lparr>LastSeen = LastSeen p, PlayerTeam = 0, PlayerName = []\<rparr>)
                               (players og) (players game)\<rparr>);
              g = game'\<lparr>CreatedAt := now\<rparr>
          in (GameSnapshot g,
              h\<lparr>rand := r', games := (games h)(new_game_body.game_id body \<mapsto> g)\<rparr>))"

definition handleNewGame ::
  "config \<Rightarrow> Time \<Rightarrow> handler \<Rightarrow> new_game_body option \<Rightarrow> response \<times> handler" where
  "handleNewGame cfg now h req =
     (case req of
        None \<Rightarrow> (Error ''malformed_body'' 400, h)
      | Some body \<Rightarrow>
          if new_game_body.game_id body = [] then (Error ''malformed_body'' 400, h)
          else
            (case games h (new_game_body.game_id body) of
               None \<Rightarrow> createGame cfg now h body None
             | Some og \<Rightarrow>
                 if prev_seed body = None \<or> the (prev_seed body) \<noteq> Seed og
                 then (GameSnapshot og, h)
                 else createGame cfg now h body (Some og)))"

definition handleGuess ::
  "Time \<Rightarrow> Time \<Rightarrow> handler \<Rightarrow> guess_body option \<Rightarrow> response \<times> handler" where
  "handleGuess now1 now2 h req =
     (case req of
        None \<Rightarrow> (Error ''malformed_body'' 400, h)
      | Some body \<Rightarrow>
          if game_id body = [] \<or> team body = 0 \<or> player_id body = []
          then (Error ''malformed_body'' 400, h)
          else
            (case games h (game_id body) of
               None \<Rightarrow> (Error ''not_found'' 404, h)
             | Some g \<Rightarrow>
                 if seed body \<noteq> Seed g then (Error ''bad_seed'' 400, h)
                 else
                   let g1 = markSeen g (player_id body) (name body) (team body) now1;
                       g2 = (case guess g1 (player_id body) (name body) (team body)
                                     (index body) now2 of
                               Inl e \<Rightarrow> g1
                             | Inr g' \<Rightarrow> g')
                   in (StatusOk, h\<lparr>games := (games h)(game_id body \<mapsto> g2)\<rparr>)))"

definition handleEndTurn ::
  "Time \<Rightarrow> handler \<Rightarrow> action_body option \<Rightarrow> response \<times> handler" where
  "handleEndTurn now h req =
     (case req of
        None \<Rightarrow> (Error ''malformed_body'' 400, h)
      | Some body \<Rightarrow>
          if game_id body = [] \<or> team body = 0 \<or> player_id body = []
          then (Error ''malformed_body'' 400, h)
          else
            (case games h (game_id body) of
               None \<Rightarrow> (Error ''not_found'' 404, h)
             | Some g \<Rightarrow>
                 if seed body \<noteq> Seed g then (Error ''bad_seed'' 400, h)
                 else
                   let g1 = markSeen g (player_id body) (name body) (team body) now;
                       g2 = addEvent g1
                              \<lparr>Number = 0, Type = ''end_turn'', Team = team body,
                               PlayerID = player_id body, Name = name body,
                               Message = [], Index = 0\<rparr>
                   in (StatusOk, h\<lparr>games := (games h)(game_id body \<mapsto> g2)\<rparr>)))"

definition handleChat ::
  "Time \<Rightarrow> handler \<Rightarrow> chat_body option \<Rightarrow> response \<times> handler" where
  "handleChat now h req =
     (case req of
        None \<Rightarrow> (Error ''malformed_body'' 400, h)
      | Some body \<Rightarrow>
          if game_id body = [] \<or> team body = 0 \<or> player_id body = [] \<or> message body = []
          then (Error ''malformed_body'' 400, h)
          else
            (case games h (game_id body) of
               None \<Rightarrow> (Error ''not_found'' 404, h)
             | Some g \<Rightarrow>
                 if seed body \<noteq> Seed g then (Error ''bad_seed'' 400, h)
                 else
                   let g1 = markSeen g (player_id body) (name body) (team body) now;
                       g2 = addEvent g1
                              \<lparr>Number = 0, Type = ''chat'', Team = team body,
                               PlayerID = player_id body, Name = name body,
                               Message = message body, Index = 0\<rparr>
                   in (StatusOk, h\<lparr>games := (games h)(game_id body \<mapsto> g2)\<rparr>)))"

definition handleEvents ::
  "Time \<Rightarrow> handler \<Rightarrow> events_body option \<Rightarrow> response \<times> handler" where
  "handleEvents now h req =
     (case req of
        None \<Rightarrow> (Error ''malformed_body'' 400, h)
      | Some body \<Rightarrow>
          if game_id body = [] \<or> player_id body = []
          then (Error ''malformed_body'' 400, h)
          else
            (case games h (game_id body) of
               None \<Rightarrow> (Error ''not_found'' 404, h)
             | Some g \<Rightarrow>
                 let seed0 = Seed g in
                 if seed body \<noteq> seed0
                 then (case eventsSince g (last_event body) of
                         (evts, ch) \<Rightarrow> (GameUpdate seed0 evts, h))
                 else
                   let g1 = markSeen g (player_id body) (name body) (team body) now;
                       h1 = h\<lparr>games := (games h)(game_id body \<mapsto> g1)\<rparr>
                   in (case eventsSince g1 (last_event body) of
                         (evts, ch) \<Rightarrow>
                           if length evts > 0 then (GameUpdate seed0 evts, h1)
                           else (Waiting ch, h1))))"

definition handlePing ::
  "Time \<Rightarrow> handler \<Rightarrow> action_body option \<Rightarrow> response \<times> handler" where
  "handlePing now h req =
     (case req of
        None \<Rightarrow> (Error ''malformed_body'' 400, h)
      | Some body \<Rightarrow>
          if game_id body = [] \<or> player_id body = []
          then (Error ''malformed_body'' 400, h)
          else
            (case games h (game_id body) of
               None \<Rightarrow> (Error ''not_found'' 404, h)
             | Some g \<Rightarrow>
                 if seed body \<noteq> Seed g then (Error ''bad_seed'' 400, h)
                 else
                   let g1 = markSeen g (player_id body) (name body) (team body) now
                   in (StatusOk, h\<lparr>games := (games h)(game_id body \<mapsto> g1)\<rparr>)))"

section \<open>Runs of the server\<close>

text \<open>
  The requests the mux dispatches and the tick of the sweep, each with the clock
  readings it makes, and the state of the server after a sequence of them. A call of
  \<^verbatim>\<open>handleIndex\<close> that panics or never leaves its loop changes no game.
\<close>

datatype operation =
  OpIndex nat
  | OpNewGame Time "new_game_body option"
  | OpGuess Time Time "guess_body option"
  | OpEndTurn Time "action_body option"
  | OpChat Time "chat_body option"
  | OpEvents Time "events_body option"
  | OpPing Time "action_body option"
  | OpSweep Time "string \<Rightarrow> Time"

fun serve :: "config \<Rightarrow> handler \<Rightarrow> operation \<Rightarrow> handler" where
  "serve cfg h (OpIndex fuel) =
     (case handleIndex fuel h of Return (resp, h') \<Rightarrow> h' | _ \<Rightarrow> h)"
| "serve cfg h (OpNewGame now req) = snd (handleNewGame cfg now h req)"
| "serve cfg h (OpGuess now1 now2 req) = snd (handleGuess now1 now2 h req)"
| "serve cfg h (OpEndTurn now req) = snd (handleEndTurn now h req)"
| "serve cfg h (OpChat now req) = snd (handleChat now h req)"
| "serve cfg h (OpEvents now req) = snd (handleEvents now h req)"
| "serve cfg h (OpPing now req) = snd (handlePing now h req)"
| "serve cfg h (OpSweep now clock) = sweep cfg now clock h"

definition run :: "config \<Rightarrow> handler \<Rightarrow> operation list \<Rightarrow> handler" where
  "run cfg h ops = foldl (serve cfg) h ops"

text \<open>
  The candidate id that iteration \<open>k\<close> of the loop of \<^verbatim>\<open>handleIndex\<close> builds, counting
  from 0: each iteration takes two values from the random source.
\<close>

definition candidate :: "handler \<Rightarrow> nat \<Rightarrow> string" where
  "candidate h k =
     ToLower (allWords h ! nat (rand h (2 * k) mod int (length (allWords h)))) @ ''-'' @
     ToLower (allWords h ! nat (rand h (2 * k + 1) mod int (length (allWords h))))"

text \<open>A log whose events carry the numbers 1, 2, 3, ... in this order.\<close>

definition numbered :: "Event list \<Rightarrow> bool" where
  "numbered es = (map Number es = map int [1..<Suc (length es)])"

section \<open>Example values\<close>

text \<open>A two-tile configuration, a game with one player and a server holding that game.\<close>

definition demo_cfg :: config where
  "demo_cfg =
     \<lparr>colorDistribution = [1, 2], NewSource = (\<lambda>s i. s + int i), idleThreshold = 50\<rparr>"

definition demo_game :: Game where
  "demo_game =
     \<lparr>Seed = 7, CreatedAt = 0,
      Tiles = [\<lparr>Word = ''ant'', Color = 1, Revealed = False\<rparr>,
               \<lparr>Word = ''bee'', Color = 2, Revealed = False\<rparr>],
      players = [(''p1'', \<lparr>LastSeen = 5, PlayerTeam = 1, PlayerName = ''Ann''\<rparr>)],
      Events = [], notify = 0\<rparr>"

definition demo_handler :: handler where
  "demo_handler =
     \<lparr>wordLists = [], allWords = [''ant'', ''bee''], rand = (\<lambda>i. 7),
      games = [''g'' \<mapsto> demo_game]\<rparr>"

definition demo_create :: "string list \<Rightarrow> Seed option \<Rightarrow> new_game_body" where
  "demo_create ws prev = \<lparr>new_game_body.game_id = ''g'', words = ws, prev_seed = prev\<rparr>"

definition demo_action :: "Seed \<Rightarrow> int \<Rightarrow> action_body" where
  "demo_action s tm =
     \<lparr>game_id = ''g'', seed = s, player_id = ''p2'', name = ''Bob'', team = tm\<rparr>"

definition demo_guess :: "Seed \<Rightarrow> int \<Rightarrow> int \<Rightarrow> guess_body" where
  "demo_guess s tm i =
     \<lparr>game_id = ''g'', seed = s, player_id = ''p2'', name = ''Bob'', team = tm, index = i\<rparr>"

definition demo_chat :: "Seed \<Rightarrow> int \<Rightarrow> string \<Rightarrow> chat_body" where
  "demo_chat s tm m =
     \<lparr>game_id = ''g'', seed = s, player_id = ''p2'', name = ''Bob'', team = tm, message = m\<rparr>"

definition demo_poll :: "Seed \<Rightarrow> int \<Rightarrow> events_body" where
  "demo_poll s n =
     \<lparr>game_id = ''g'', seed = s, player_id = ''p2'', name = ''Bob'', team = 1,
      last_event = n\<rparr>"

text \<open>A run: a game is created, then an end of turn, a chat message and a guess.\<close>

definition demo_run :: "operation list" where
  "demo_run =
     [OpNewGame 10 (Some (demo_create [''ant'', ''bee''] None)),
      OpEndTurn 11 (Some (demo_action 7 1)),
      OpChat 12 (Some (demo_chat 7 2 ''hi'')),
      OpGuess 13 14 (Some (demo_guess 7 1 0))]"

definition demo_played :: Game where
  "demo_played =
     \<lparr>Seed = 7, CreatedAt = 10,
      Tiles = [\<lparr>Word = ''ant'', Color = 2, Revealed = True\<rparr>,
               \<lparr>Word = ''bee'', Color = 1, Revealed = False\<rparr>],
      players = [(''p2'', \<lparr>LastSeen = 14, PlayerTeam = 1, PlayerName = ''Bob''\<rparr>)],
      Events =
        [\<lparr>Number = 1, Type = ''end_turn'', Team = 1, PlayerID = ''p2'', Name = ''Bob'',
          Message = [], Index = 0\<rparr>,
         \<lparr>Number = 2, Type = ''chat'', Team = 2, PlayerID = ''p2'', Name = ''Bob'',
          Message = ''hi'', Index = 0\<rparr>,
         \<lparr>Number = 3, Type = ''guess'', Team = 1, PlayerID = ''p2'', Name = ''Bob'',
          Message = [], Index = 0\<rparr>],
      notify = 3\<rparr>"

definition demo_idle :: handler where
  "demo_idle = demo_handler\<lparr>games := [''g'' \<mapsto> demo_game\<lparr>players := []\<rparr>]\<rparr>"

section \<open>Seed mismatch on an action\<close>

text \<open>
  C1, as the code has it. On a session that exists, a request whose seed differs from
  the seed of the live game leaves the whole server state as it was, for each of the
  five actions. What is answered differs: the events poll answers the current seed with
  the events after the caller's last event; guess, end-turn, chat and ping answer the
  error \<open>bad_seed\<close> with status 400 (or \<open>malformed_body\<close> when a required field is
  missing), and carry neither seed nor events.
\<close>

theorem seed_mismatch_leaves_state:
  assumes "games h gid = Some g" and "s \<noteq> Seed g"
  shows
   "(game_id gb = gid \<and> seed gb = s \<longrightarrow>
       handleGuess now1 now2 h (Some gb) =
         (if team gb = 0 \<or> player_id gb = [] \<or> gid = []
          then Error ''malformed_body'' 400 else Error ''bad_seed'' 400, h)) \<and>
    (game_id eb = gid \<and> seed eb = s \<longrightarrow>
       handleEndTurn now h (Some eb) =
         (if team eb = 0 \<or> player_id eb = [] \<or> gid = []
          then Error ''malformed_body'' 400 else Error ''bad_seed'' 400, h)) \<and>
    (game_id cb = gid \<and> seed cb = s \<longrightarrow>
       handleChat now h (Some cb) =
         (if team cb = 0 \<or> player_id cb = [] \<or> message cb = [] \<or> gid = []
          then Error ''malformed_body'' 400 else Error ''bad_seed'' 400, h)) \<and>
    (game_id pb = gid \<and> seed pb = s \<longrightarrow>
       handlePing now h (Some pb) =
         (if player_id pb = [] \<or> gid = []
          then Error ''malformed_body'' 400 else Error ''bad_seed'' 400, h)) \<and>
    (game_id vb = gid \<and> seed vb = s \<longrightarrow>
       handleEvents now h (Some vb) =
         (if player_id vb = [] \<or> gid = [] then Error ''malformed_body'' 400
          else GameUpdate (Seed g) (filter (\<lambda>e. last_event vb < Number e) (Events g)), h))"
  using assms
  by (auto simp: handleGuess_def handleEndTurn_def handleChat_def handlePing_def
      handleEvents_def eventsSince_def)

theorem seed_mismatch_leaves_state_witness:
  "handleGuess 1 2 demo_handler (Some (demo_guess 8 1 0)) = (Error ''bad_seed'' 400, demo_handler) \<and>
   handleEndTurn 1 demo_handler (Some (demo_action 8 1)) = (Error ''bad_seed'' 400, demo_handler) \<and>
   handleChat 1 demo_handler (Some (demo_chat 8 1 ''hi'')) = (Error ''bad_seed'' 400, demo_handler) \<and>
   handlePing 1 demo_handler (Some (demo_action 8 1)) = (Error ''bad_seed'' 400, demo_handler) \<and>
   handleEvents 1 demo_handler (Some (demo_poll 8 0)) = (GameUpdate 7 [], demo_handler)"
  using seed_mismatch_leaves_state
    [where h = demo_handler and gid = "''g''" and g = demo_game and s = 8
       and gb = "demo_guess 8 1 0" and ?now1.0 = 1 and ?now2.0 = 2 and now = 1
       and eb = "demo_action 8 1" and cb = "demo_chat 8 1 ''hi''"
       and pb = "demo_action 8 1" and vb = "demo_poll 8 0"]
  by (simp add: demo_handler_def demo_game_def demo_guess_def demo_action_def demo_chat_def
      demo_poll_def)

text \<open>
  As the specification states it, the property fails for a guess: the session exists, the seeds differ, and the
  answer is the error \<open>bad_seed\<close>, not the current seed with the events since the
  caller's last event.
\<close>

theorem seed_mismatch_guess_counterexample:
  "games demo_handler (game_id (demo_guess 8 1 0)) = Some demo_game \<and>
   seed (demo_guess 8 1 0) \<noteq> Seed demo_game \<and>
   fst (handleGuess 1 2 demo_handler (Some (demo_guess 8 1 0))) = Error ''bad_seed'' 400 \<and>
   fst (handleGuess 1 2 demo_handler (Some (demo_guess 8 1 0)))
     \<noteq> GameUpdate (Seed demo_game) (fst (eventsSince demo_game 0))"
  by (simp add: handleGuess_def demo_handler_def demo_game_def demo_guess_def)

section \<open>The guard on a reset\<close>

text \<open>
  C2. A create request on a session that exists, whose \<open>prev_seed\<close> is absent or is not
  the seed of the live game, is answered with the existing game, and the server state
  (that game with its seed, tiles, players and event log, the other games, the random
  source) is the state before the request. A session never has the empty id, which
  \<^verbatim>\<open>handleNewGame\<close> refuses, so the hypothesis on the id excludes no existing session.
\<close>

theorem reset_guard_keeps_game:
  assumes "games h (new_game_body.game_id body) = Some og"
      and "new_game_body.game_id body \<noteq> []"
      and "prev_seed body = None \<or> prev_seed body \<noteq> Some (Seed og)"
  shows "handleNewGame cfg now h (Some body) = (GameSnapshot og, h)"
  using assms by (auto simp: handleNewGame_def)

theorem reset_guard_keeps_game_witness:
  "handleNewGame demo_cfg 99 demo_handler (Some (demo_create [] (Some 8)))
     = (GameSnapshot demo_game, demo_handler)"
  using reset_guard_keeps_game
    [where h = demo_handler and body = "demo_create [] (Some 8)" and og = demo_game
       and cfg = demo_cfg and now = 99]
  by (simp add: demo_handler_def demo_game_def demo_create_def)

section \<open>A guess outside the board\<close>

text \<open>
  C5, as the code has it. For a guess whose seed matches and whose index is outside the
  board, \<^verbatim>\<open>guess\<close> rejects the index before it reads a tile, and no tile and no event
  of the game changes. The handler has called \<^verbatim>\<open>markSeen\<close> before, so the entry of
  the guessing player is written, and it answers \<open>ok\<close> whatever \<^verbatim>\<open>guess\<close> returned.
\<close>

theorem guess_out_of_bounds_keeps_board:
  assumes "games h (game_id b) = Some g" and "seed b = Seed g"
      and "game_id b \<noteq> []" and "team b \<noteq> 0" and "player_id b \<noteq> []"
      and "index b < 0 \<or> int (length (Tiles g)) \<le> index b"
  shows "guess (markSeen g (player_id b) (name b) (team b) now1)
           (player_id b) (name b) (team b) (index b) now2 = Inl IndexOutOfBounds \<and>
         handleGuess now1 now2 h (Some b) =
           (StatusOk,
            h\<lparr>games := (games h)(game_id b \<mapsto>
                 g\<lparr>players := AList.update (player_id b)
                      \<lparr>LastSeen = now1, PlayerTeam = team b, PlayerName = name b\<rparr>
                      (players g)\<rparr>)\<rparr>)"
  using assms by (auto simp: handleGuess_def guess_def markSeen_def)

theorem guess_out_of_bounds_keeps_board_witness:
  "handleGuess 1 2 demo_handler (Some (demo_guess 7 1 2)) =
     (StatusOk, demo_handler\<lparr>games := [''g'' \<mapsto> demo_game\<lparr>players :=
         [(''p1'', \<lparr>LastSeen = 5, PlayerTeam = 1, PlayerName = ''Ann''\<rparr>),
          (''p2'', \<lparr>LastSeen = 1, PlayerTeam = 1, PlayerName = ''Bob''\<rparr>)]\<rparr>]\<rparr>)"
  using guess_out_of_bounds_keeps_board
    [where h = demo_handler and b = "demo_guess 7 1 2" and g = demo_game
       and ?now1.0 = 1 and ?now2.0 = 2]
  by (simp add: demo_handler_def demo_game_def demo_guess_def)

text \<open>
  As the specification states it, the property fails: index 2 is outside a board of two tiles, the answer is
  \<open>ok\<close> and the state of the server has changed (player \<open>p2\<close> is now present).
\<close>

theorem guess_out_of_bounds_counterexample:
  "games demo_handler (game_id (demo_guess 7 1 2)) = Some demo_game \<and>
   seed (demo_guess 7 1 2) = Seed demo_game \<and>
   int (length (Tiles demo_game)) \<le> index (demo_guess 7 1 2) \<and>
   fst (handleGuess 1 2 demo_handler (Some (demo_guess 7 1 2))) = StatusOk \<and>
   snd (handleGuess 1 2 demo_handler (Some (demo_guess 7 1 2))) \<noteq> demo_handler"
  apply (simp add: handleGuess_def demo_handler_def demo_game_def demo_guess_def markSeen_def
      guess_def)
  apply (simp add: fun_eq_iff)
  done

section \<open>The team of a request\<close>

text \<open>
  C6, as the code has it. A guess, end-turn or chat request whose team is zero, the
  value of an absent field, is answered \<open>malformed_body\<close> with status 400 and the
  server state is the state before the request. The handlers compare the team with
  zero only.
\<close>

theorem zero_team_rejected:
  "(team gb = 0 \<longrightarrow> handleGuess now1 now2 h (Some gb) = (Error ''malformed_body'' 400, h)) \<and>
   (team eb = 0 \<longrightarrow> handleEndTurn now h (Some eb) = (Error ''malformed_body'' 400, h)) \<and>
   (team cb = 0 \<longrightarrow> handleChat now h (Some cb) = (Error ''malformed_body'' 400, h))"
  by (simp add: handleGuess_def handleEndTurn_def handleChat_def)

theorem zero_team_rejected_witness:
  "handleGuess 1 2 demo_handler (Some (demo_guess 7 0 1))
     = (Error ''malformed_body'' 400, demo_handler) \<and>
   handleEndTurn 1 demo_handler (Some (demo_action 7 0))
     = (Error ''malformed_body'' 400, demo_handler) \<and>
   handleChat 1 demo_handler (Some (demo_chat 7 0 ''hi''))
     = (Error ''malformed_body'' 400, demo_handler)"
  using zero_team_rejected
    [where gb = "demo_guess 7 0 1" and ?now1.0 = 1 and ?now2.0 = 2 and h = demo_handler
       and eb = "demo_action 7 0" and now = 1 and cb = "demo_chat 7 0 ''hi''"]
  by (simp add: demo_guess_def demo_action_def demo_chat_def)

text \<open>
  As the specification states it, the property fails for a negative team: the end-turn request of team \<open>-1\<close> is
  answered \<open>ok\<close> and its event is appended to the log.
\<close>

theorem negative_team_counterexample:
  "team (demo_action 7 (- 1)) < 0 \<and>
   fst (handleEndTurn 9 demo_handler (Some (demo_action 7 (- 1)))) = StatusOk \<and>
   map_option Events (games (snd (handleEndTurn 9 demo_handler (Some (demo_action 7 (- 1))))) ''g'')
     = Some [\<lparr>Number = 1, Type = ''end_turn'', Team = - 1, PlayerID = ''p2'', Name = ''Bob'',
              Message = [], Index = 0\<rparr>]"
  by (simp add: handleEndTurn_def demo_action_def demo_handler_def demo_game_def markSeen_def
      addEvent_def notifyAll_def)

section \<open>A word list that is too short\<close>

text \<open>
  C7, as the code has it. A create request whose effective word list (the combined
  list when the request has none) is shorter than the colour distribution leaves the
  server state as it was. It is answered \<open>too_few_words\<close> with status 400 when it has
  a session id and passes the guard on the previous seed, which \<^verbatim>\<open>handleNewGame\<close>
  checks first.
\<close>

theorem too_few_words_rejected:
  assumes "length (if words body = [] then allWords h else words body)
             < length (colorDistribution cfg)"
  shows "snd (handleNewGame cfg now h (Some body)) = h \<and>
         (new_game_body.game_id body \<noteq> [] \<and>
          (\<forall>og. games h (new_game_body.game_id body) = Some og
                \<longrightarrow> prev_seed body = Some (Seed og))
          \<longrightarrow> fst (handleNewGame cfg now h (Some body)) = Error ''too_few_words'' 400)"
  using assms by (auto simp: handleNewGame_def createGame_def split: option.splits)

theorem too_few_words_rejected_witness:
  "handleNewGame demo_cfg 99 demo_handler (Some (demo_create [''ant''] (Some 7)))
     = (Error ''too_few_words'' 400, demo_handler)"
  using too_few_words_rejected
    [where body = "demo_create [''ant''] (Some 7)" and h = demo_handler and cfg = demo_cfg
       and now = 99]
  by (simp add: demo_handler_def demo_game_def demo_cfg_def demo_create_def prod_eq_iff)

text \<open>
  As the specification states it, the property fails for a request that the guard stops: one word is fewer than
  the two colours, and the answer is the existing game, not the error.
\<close>

theorem too_few_words_counterexample:
  "length (words (demo_create [''ant''] None)) < length (colorDistribution demo_cfg) \<and>
   handleNewGame demo_cfg 99 demo_handler (Some (demo_create [''ant''] None))
     = (GameSnapshot demo_game, demo_handler) \<and>
   fst (handleNewGame demo_cfg 99 demo_handler (Some (demo_create [''ant''] None)))
     \<noteq> Error ''too_few_words'' 400"
  by (simp add: handleNewGame_def demo_handler_def demo_game_def demo_cfg_def demo_create_def)

section \<open>The sweep\<close>

text \<open>
  C8, as the code has it. One run of the sweep deletes a session exactly when no player
  remains after pruning and the session was created at least 24 hours before the
  reading of the clock: the loop keeps the session while \<^verbatim>\<open>CreatedAt.Add(24h)\<close> is
  after \<^verbatim>\<open>time.Now()\<close>, so a session aged exactly 24 hours goes. No player remains
  exactly when every player was idle for longer than the threshold. A session that
  stays holds the pruned game.
\<close>

theorem sweep_deletes_iff:
  assumes "games h gid = Some g"
  shows "(games (sweep cfg now clock h) gid = None) =
           (snd (pruneOldPlayers cfg g now) = 0 \<and> CreatedAt g + 24 * Hour \<le> clock gid) \<and>
         (snd (pruneOldPlayers cfg g now) = 0) =
           (\<forall>(pid, p) \<in> set (players g). idleThreshold cfg < now - LastSeen p) \<and>
         (games (sweep cfg now clock h) gid \<noteq> None \<longrightarrow>
            games (sweep cfg now clock h) gid = Some (fst (pruneOldPlayers cfg g now)))"
  using assms
  by (auto simp: sweep_def pruneOldPlayers_def Let_def filter_empty_conv)

theorem sweep_deletes_iff_witness:
  "games (sweep demo_cfg (25 * Hour) (\<lambda>gid. 25 * Hour) demo_handler) ''g'' = None \<and>
   games (sweep demo_cfg 30 (\<lambda>gid. 25 * Hour) demo_handler) ''g'' \<noteq> None \<and>
   games (sweep demo_cfg (23 * Hour) (\<lambda>gid. 23 * Hour) demo_handler) ''g'' \<noteq> None"
  using
    sweep_deletes_iff [where h = demo_handler and gid = "''g''" and g = demo_game
      and cfg = demo_cfg and now = "25 * Hour" and clock = "\<lambda>gid. 25 * Hour"]
    sweep_deletes_iff [where h = demo_handler and gid = "''g''" and g = demo_game
      and cfg = demo_cfg and now = "30" and clock = "\<lambda>gid. 25 * Hour"]
    sweep_deletes_iff [where h = demo_handler and gid = "''g''" and g = demo_game
      and cfg = demo_cfg and now = "23 * Hour" and clock = "\<lambda>gid. 23 * Hour"]
  by (simp add: demo_handler_def demo_game_def demo_cfg_def Hour_def)

text \<open>
  As the specification states it, the property fails at the boundary: a session without players whose age is
  exactly 24 hours, which is at most 24 hours, is deleted.
\<close>

theorem sweep_at_24_hours_counterexample:
  "games demo_idle ''g'' = Some (demo_game\<lparr>players := []\<rparr>) \<and>
   24 * Hour - CreatedAt (demo_game\<lparr>players := []\<rparr>) \<le> 24 * Hour \<and>
   games (sweep demo_cfg (24 * Hour) (\<lambda>gid. 24 * Hour) demo_idle) ''g'' = None"
  by (simp add: sweep_def pruneOldPlayers_def demo_idle_def demo_handler_def demo_game_def
      demo_cfg_def Hour_def)

section \<open>A reset that passes the guard\<close>

lemma update_fresh: "k \<notin> fst ` set al \<Longrightarrow> AList.update k v al = al @ [(k, v)]"
  by (induction al) auto

lemma set_update_subset: "set (AList.update k v al) \<subseteq> insert (k, v) (set al)"
  by (induction al) auto

lemma carry_keys:
  "fst ` set (fold (\<lambda>(pid, p). AList.update pid (f p)) xs acc) = fst ` set xs \<union> fst ` set acc"
  by (induction xs arbitrary: acc) (auto simp: AList.dom_update split: prod.splits)

lemma carry_values:
  "(\<forall>(pid, p) \<in> set acc. P p) \<Longrightarrow> (\<forall>p. P (f p)) \<Longrightarrow>
   (\<forall>(pid, p) \<in> set (fold (\<lambda>(pid, p). AList.update pid (f p)) xs acc). P p)"
proof (induction xs arbitrary: acc)
  case Nil
  then show ?case by simp
next
  case (Cons x xs)
  obtain k v where x: "x = (k, v)" by (cases x)
  have "\<forall>(pid, p) \<in> set (AList.update k (f v) acc). P p"
    using Cons.prems set_update_subset [of k "f v" acc] by auto
  from Cons.IH [OF this Cons.prems(2)] show ?case by (simp add: x)
qed

lemma carry_distinct:
  "distinct (map fst xs) \<Longrightarrow> fst ` set xs \<inter> fst ` set acc = {} \<Longrightarrow>
   fold (\<lambda>(pid, p). AList.update pid (f p)) xs acc = acc @ map (\<lambda>(pid, p). (pid, f p)) xs"
proof (induction xs arbitrary: acc)
  case Nil
  then show ?case by simp
next
  case (Cons x xs)
  obtain k v where x: "x = (k, v)" by (cases x)
  have fresh: "k \<notin> fst ` set acc" using Cons.prems(2) by (auto simp: x)
  have d: "distinct (map fst xs)" and k: "k \<notin> fst ` set xs"
    using Cons.prems(1) by (auto simp: x)
  have "fst ` set xs \<inter> fst ` set (acc @ [(k, f v)]) = {}"
    using Cons.prems(2) k by (auto simp: x)
  from Cons.IH [OF d this] show ?case
    by (simp add: x update_fresh [OF fresh])
qed

text \<open>
  C9, as the code has it. A reset that passes the guard, with enough words, puts a new
  game in the place of the old one. Its seed is the next value of the server's random
  source, which the handler does not compare with the old seed. Its players are the
  ids of the old game's players, each with the old last-seen time and with team and
  name cleared. Its tiles are generated from the new seed, its event log is empty, and
  its creation time is the time of the request.
\<close>

theorem reset_replaces_game:
  assumes "games h (new_game_body.game_id body) = Some og"
      and "new_game_body.game_id body \<noteq> []"
      and "prev_seed body = Some (Seed og)"
      and "ws = (if words body = [] then allWords h else words body)"
      and "length (colorDistribution cfg) \<le> length ws"
  shows "\<exists>g'. handleNewGame cfg now h (Some body) =
                 (GameSnapshot g',
                  h\<lparr>rand := snd (Int63 (rand h)),
                    games := (games h)(new_game_body.game_id body \<mapsto> g')\<rparr>) \<and>
               Seed g' = fst (Int63 (rand h)) \<and>
               fst ` set (players g') = fst ` set (players og) \<and>
               (\<forall>(pid, p) \<in> set (players g'). PlayerTeam p = 0) \<and>
               (distinct (map fst (players og)) \<longrightarrow>
                  players g' =
                    map (\<lambda>(pid, p). (pid, \<lparr>LastSeen = LastSeen p, PlayerTeam = 0,
                                           PlayerName = []\<rparr>))
                      (players og)) \<and>
               Tiles g' = BoardGenerator cfg (Seed g') ws \<and>
               Events g' = [] \<and> notify g' = 0 \<and> CreatedAt g' = now"
proof -
  let ?f = "\<lambda>p. \<lparr>LastSeen = LastSeen p, PlayerTeam = 0, PlayerName = []\<rparr>"
  let ?ps = "fold (\<lambda>(pid, p). AList.update pid (?f p)) (players og) []"
  let ?s = "fst (Int63 (rand h))"
  let ?g = "\<lparr>Seed = ?s, CreatedAt = now, Tiles = BoardGenerator cfg ?s ws,
             players = ?ps, Events = [], notify = 0\<rparr>"
  have run: "handleNewGame cfg now h (Some body) =
      (GameSnapshot ?g,
       h\<lparr>rand := snd (Int63 (rand h)),
         games := (games h)(new_game_body.game_id body \<mapsto> ?g)\<rparr>)"
    using assms
    by (simp add: handleNewGame_def createGame_def ReconstructGame_def NewState_def Let_def
        split: prod.splits)
  have keys: "fst ` set ?ps = fst ` set (players og)"
    by (simp add: carry_keys)
  have teams: "\<forall>(pid, p) \<in> set ?ps. PlayerTeam p = 0"
    by (rule carry_values) simp_all
  have same: "distinct (map fst (players og)) \<longrightarrow>
                ?ps = map (\<lambda>(pid, p). (pid, ?f p)) (players og)"
    using carry_distinct [of "players og" "[]" ?f] by simp
  show ?thesis
    apply (rule exI [of _ ?g])
    using run keys teams same by simp
qed

theorem reset_replaces_game_witness:
  "map_option Seed
     (games (snd (handleNewGame demo_cfg 99 demo_handler (Some (demo_create [] (Some 7))))) ''g'')
     = Some 7 \<and>
   map_option players
     (games (snd (handleNewGame demo_cfg 99 demo_handler (Some (demo_create [] (Some 7))))) ''g'')
     = Some [(''p1'', \<lparr>LastSeen = 5, PlayerTeam = 0, PlayerName = []\<rparr>)] \<and>
   map_option Events
     (games (snd (handleNewGame demo_cfg 99 demo_handler (Some (demo_create [] (Some 7))))) ''g'')
     = Some []"
proof -
  have "games demo_handler (new_game_body.game_id (demo_create [] (Some 7))) = Some demo_game"
    and "new_game_body.game_id (demo_create [] (Some 7)) \<noteq> []"
    and "prev_seed (demo_create [] (Some 7)) = Some (Seed demo_game)"
    and "[''ant'', ''bee''] =
           (if words (demo_create [] (Some 7)) = [] then allWords demo_handler
            else words (demo_create [] (Some 7)))"
    and "length (colorDistribution demo_cfg) \<le> length [''ant'', ''bee'']"
    by (simp_all add: demo_handler_def demo_game_def demo_create_def demo_cfg_def)
  from reset_replaces_game [OF this, of 99]
  obtain g' where
    run: "handleNewGame demo_cfg 99 demo_handler (Some (demo_create [] (Some 7))) =
            (GameSnapshot g',
             demo_handler\<lparr>rand := snd (Int63 (rand demo_handler)),
               games := (games demo_handler)
                 (new_game_body.game_id (demo_create [] (Some 7)) \<mapsto> g')\<rparr>)"
    and s: "Seed g' = fst (Int63 (rand demo_handler))"
    and p: "distinct (map fst (players demo_game)) \<longrightarrow>
              players g' =
                map (\<lambda>(pid, p). (pid, \<lparr>LastSeen = LastSeen p, PlayerTeam = 0,
                                       PlayerName = []\<rparr>))
                  (players demo_game)"
    and e: "Events g' = []"
    by blast
  have gid: "new_game_body.game_id (demo_create [] (Some 7)) = ''g''"
    by (simp add: demo_create_def)
  have "Seed g' = 7" using s by (simp add: Int63_def demo_handler_def)
  moreover have "players g' = [(''p1'', \<lparr>LastSeen = 5, PlayerTeam = 0, PlayerName = []\<rparr>)]"
    using p by (simp add: demo_game_def)
  ultimately show ?thesis
    using e by (simp add: run gid)
qed

text \<open>
  As the specification states it, the property fails where the random source returns the seed of the old game:
  the reset succeeds (the game is replaced, created at time 99) and the seed is the
  same.
\<close>

theorem reset_same_seed_counterexample:
  "games demo_handler ''g'' = Some demo_game \<and>
   prev_seed (demo_create [] (Some 7)) = Some (Seed demo_game) \<and>
   map_option Seed
     (games (snd (handleNewGame demo_cfg 99 demo_handler (Some (demo_create [] (Some 7))))) ''g'')
     = Some (Seed demo_game) \<and>
   map_option CreatedAt
     (games (snd (handleNewGame demo_cfg 99 demo_handler (Some (demo_create [] (Some 7))))) ''g'')
     = Some 99"
  by (simp add: handleNewGame_def createGame_def demo_handler_def demo_game_def
      demo_create_def demo_cfg_def Int63_def ReconstructGame_def NewState_def Let_def)

section \<open>The index endpoint\<close>

lemma index_loop_ident:
  "index_loop fuel h ident = Return (x, h') \<Longrightarrow> x = ident"
  by (induction fuel arbitrary: h) (auto simp: Let_def split: option.splits if_splits)

lemma index_loop_no_panic:
  "allWords h \<noteq> [] \<Longrightarrow> index_loop fuel h ident \<noteq> Panic"
  by (induction fuel arbitrary: h) (auto simp: Let_def Int63n_def split: option.splits if_splits)

lemma index_loop_step:
  assumes "allWords h \<noteq> []"
  shows "index_loop (Suc fuel) h ident =
      (if games h (candidate h 0) = None
       then Return (ident, h\<lparr>rand := \<lambda>i. rand h (Suc (Suc i))\<rparr>)
       else index_loop fuel (h\<lparr>rand := \<lambda>i. rand h (Suc (Suc i))\<rparr>) ident)"
  using assms
  by (subst index_loop.simps(2))
    (simp add: Int63n_def Let_def candidate_def del: index_loop.simps)

lemma candidate_shift:
  "candidate (h\<lparr>rand := \<lambda>i. rand h (Suc (Suc i))\<rparr>) k = candidate h (Suc k)"
  by (simp add: candidate_def)

lemma index_loop_responds:
  "allWords h \<noteq> [] \<Longrightarrow> games h (candidate h k) = None \<Longrightarrow>
   \<exists>h'. index_loop (Suc k) h ident = Return (ident, h')"
proof (induction k arbitrary: h)
  case 0
  then show ?case by (simp add: index_loop_step del: index_loop.simps)
next
  case (Suc k)
  let ?h = "h\<lparr>rand := \<lambda>i. rand h (Suc (Suc i))\<rparr>"
  have "\<exists>h'. index_loop (Suc k) ?h ident = Return (ident, h')"
    using Suc.prems by (intro Suc.IH) (simp_all add: candidate_shift)
  then show ?case
    unfolding index_loop_step [OF Suc.prems(1), of "Suc k"] by simp
qed

lemma index_loop_diverges:
  "allWords h \<noteq> [] \<Longrightarrow> \<forall>k<fuel. games h (candidate h k) \<noteq> None \<Longrightarrow>
   index_loop fuel h ident = Diverge"
proof (induction fuel arbitrary: h)
  case 0
  then show ?case by simp
next
  case (Suc fuel)
  let ?h = "h\<lparr>rand := \<lambda>i. rand h (Suc (Suc i))\<rparr>"
  have first: "games h (candidate h 0) \<noteq> None" using Suc.prems(2) by simp
  have "\<forall>k<fuel. games ?h (candidate ?h k) \<noteq> None"
    using Suc.prems(2) by (simp add: candidate_shift)
  then have "index_loop fuel ?h ident = Diverge"
    using Suc.prems(1) by (intro Suc.IH) simp_all
  then show ?case
    unfolding index_loop_step [OF Suc.prems(1), of fuel] using first by simp
qed

text \<open>
  C10. Whatever the word lists, the games and the number of iterations of the loop,
  a response of the index endpoint carries the empty string as \<open>autogenerated_id\<close>: the
  loop never writes the variable that is serialized. The endpoint responds as soon as
  a candidate has no game, and after one iteration when that is the first candidate.
  There is no response in two cases: with an empty combined word list \<^verbatim>\<open>Int63n\<close>
  panics (with words it never does), and while every candidate has a game the loop
  goes on.
\<close>

theorem index_id_empty:
  "(\<forall>resp h'. handleIndex fuel h = Return (resp, h') \<longrightarrow> resp = AutogeneratedID []) \<and>
   (allWords h \<noteq> [] \<and> games h (candidate h k) = None
    \<longrightarrow> (\<exists>h'. handleIndex (Suc k) h = Return (AutogeneratedID [], h'))) \<and>
   (allWords h \<noteq> [] \<and> games h (candidate h 0) = None
    \<longrightarrow> handleIndex (Suc fuel) h =
          Return (AutogeneratedID [], h\<lparr>rand := \<lambda>i. rand h (Suc (Suc i))\<rparr>)) \<and>
   (allWords h \<noteq> [] \<and> (\<forall>k<fuel. games h (candidate h k) \<noteq> None)
    \<longrightarrow> handleIndex fuel h = Diverge) \<and>
   (allWords h \<noteq> [] \<longrightarrow> handleIndex fuel h \<noteq> Panic) \<and>
   (allWords h = [] \<longrightarrow> handleIndex (Suc fuel) h = Panic)"
proof (intro conjI allI impI)
  fix resp h' assume "handleIndex fuel h = Return (resp, h')"
  then show "resp = AutogeneratedID []"
    by (auto simp: handleIndex_def split: outcome.splits dest: index_loop_ident)
next
  assume "allWords h \<noteq> [] \<and> games h (candidate h k) = None"
  then obtain h' where "index_loop (Suc k) h [] = Return ([], h')"
    using index_loop_responds [of h k "[]"] by blast
  then show "\<exists>h'. handleIndex (Suc k) h = Return (AutogeneratedID [], h')"
    by (simp add: handleIndex_def)
next
  assume "allWords h \<noteq> [] \<and> games h (candidate h 0) = None"
  then show "handleIndex (Suc fuel) h =
      Return (AutogeneratedID [], h\<lparr>rand := \<lambda>i. rand h (Suc (Suc i))\<rparr>)"
    by (simp add: handleIndex_def index_loop_step del: index_loop.simps)
next
  assume "allWords h \<noteq> [] \<and> (\<forall>k<fuel. games h (candidate h k) \<noteq> None)"
  then show "handleIndex fuel h = Diverge"
    by (simp add: handleIndex_def index_loop_diverges)
next
  assume "allWords h \<noteq> []"
  then show "handleIndex fuel h \<noteq> Panic"
    using index_loop_no_panic [of h fuel "[]"]
    by (auto simp: handleIndex_def split: outcome.splits)
next
  assume "allWords h = []"
  then show "handleIndex (Suc fuel) h = Panic"
    by (simp add: handleIndex_def Int63n_def)
qed

theorem index_id_empty_witness:
  "handleIndex 1 demo_handler = Return (AutogeneratedID [], demo_handler)"
  using index_id_empty [where h = demo_handler and fuel = 0]
  by (simp add: demo_handler_def candidate_def ToLower_def)

section \<open>The event log\<close>

lemma numbered_Nil: "numbered []"
  by (simp add: numbered_def)

lemma numbered_snoc:
  "numbered es \<Longrightarrow> numbered (es @ [e\<lparr>Number := int (length es) + 1\<rparr>])"
  by (simp add: numbered_def)

lemma Events_markSeen: "Events (markSeen g pid nm tm now) = Events g"
  by (simp add: markSeen_def)

lemma numbered_addEvent: "numbered (Events g) \<Longrightarrow> numbered (Events (addEvent g e))"
  by (simp add: addEvent_def notifyAll_def numbered_snoc)

lemma numbered_guess:
  "numbered (Events g) \<Longrightarrow> guess g pid nm tm idx now = Inr g' \<Longrightarrow> numbered (Events g')"
  by (auto simp: guess_def Let_def Events_markSeen intro!: numbered_addEvent split: if_splits)

lemma index_loop_games:
  "index_loop fuel h ident = Return (x, h') \<Longrightarrow> games h' = games h"
  by (induction fuel arbitrary: h) (auto simp: Let_def split: option.splits if_splits)

lemma serve_numbered:
  assumes inv: "\<forall>gid g. games h gid = Some g \<longrightarrow> numbered (Events g)"
  shows "\<forall>gid g. games (serve cfg h op) gid = Some g \<longrightarrow> numbered (Events g)"
proof (cases op)
  case (OpIndex fuel)
  then show ?thesis using inv
    by (auto simp: handleIndex_def split: outcome.splits dest: index_loop_games)
next
  case (OpNewGame now req)
  then show ?thesis using inv
    by (auto simp: handleNewGame_def createGame_def ReconstructGame_def Let_def numbered_Nil
        split: option.splits if_splits prod.splits)
next
  case (OpGuess now1 now2 req)
  then show ?thesis using inv
    by (auto simp: handleGuess_def Let_def Events_markSeen
        split: option.splits if_splits sum.splits dest!: numbered_guess [rotated])
next
  case (OpEndTurn now req)
  then show ?thesis using inv
    by (auto simp: handleEndTurn_def Let_def Events_markSeen intro!: numbered_addEvent
        split: option.splits if_splits)
next
  case (OpChat now req)
  then show ?thesis using inv
    by (auto simp: handleChat_def Let_def Events_markSeen intro!: numbered_addEvent
        split: option.splits if_splits)
next
  case (OpEvents now req)
  then show ?thesis using inv
    by (auto simp: handleEvents_def Let_def Events_markSeen eventsSince_def
        split: option.splits if_splits)
next
  case (OpPing now req)
  then show ?thesis using inv
    by (auto simp: handlePing_def Let_def Events_markSeen split: option.splits if_splits)
next
  case (OpSweep now clock)
  then show ?thesis using inv
    by (auto simp: sweep_def pruneOldPlayers_def Let_def split: option.splits if_splits)
qed

lemma run_numbered:
  "\<forall>gid g. games h gid = Some g \<longrightarrow> numbered (Events g) \<Longrightarrow>
   \<forall>gid g. games (run cfg h ops) gid = Some g \<longrightarrow> numbered (Events g)"
  unfolding run_def
proof (induction ops arbitrary: h)
  case Nil
  then show ?case by simp
next
  case (Cons op ops)
  show ?case
    using Cons.IH [OF serve_numbered [OF Cons.prems]] by simp
qed

lemma since_drop:
  "map Number es = map int [Suc k..<Suc k + length es] \<Longrightarrow>
   filter (\<lambda>e. n < Number e) es = drop (nat n - k) es"
proof (induction es arbitrary: k)
  case Nil
  then show ?case by simp
next
  case (Cons e es)
  have split: "[Suc k..<Suc k + length (e # es)] =
      Suc k # [Suc (Suc k)..<Suc (Suc k) + length es]"
    by (simp add: upt_conv_Cons del: upt_Suc)
  from Cons.prems have hd: "Number e = int k + 1"
    and tl: "map Number es = map int [Suc (Suc k)..<Suc (Suc k) + length es]"
    unfolding split by simp_all
  from Cons.IH [OF tl] have ih: "filter (\<lambda>e. n < Number e) es = drop (nat n - Suc k) es" .
  show ?case
  proof (cases "n < int k + 1")
    case True
    then have "nat n - k = 0" and "nat n - Suc k = 0" by auto
    then show ?thesis using True hd ih by simp
  next
    case False
    then have "nat n - k = Suc (nat n - Suc k)" by auto
    then show ?thesis using False hd ih by simp
  qed
qed

lemma numbered_drop:
  assumes "numbered es"
  shows "map Number (drop m es) = map int [Suc m..<Suc (length es)]"
proof -
  have "map Number (drop m es) = drop m (map Number es)"
    by (simp add: drop_map)
  also have "\<dots> = drop m (map int [1..<Suc (length es)])"
    using assms by (simp add: numbered_def)
  also have "\<dots> = map int (drop m [1..<Suc (length es)])"
    by (simp only: drop_map)
  also have "\<dots> = map int [Suc m..<Suc (length es)]"
    by (simp only: drop_upt) simp
  finally show ?thesis .
qed

text \<open>
  C3. After any sequence of requests and sweeps on a server that started without games,
  the events of every session carry the numbers 1, 2, 3, ... in the order of the log:
  1-based, strictly increasing, without gap. \<^verbatim>\<open>eventsSince(n)\<close> returns exactly the events
  with a number greater than \<open>n\<close>, in the order of the log, which are the events after
  the first \<open>n\<close>; their numbers are \<open>n + 1\<close>, \<open>n + 2\<close>, ... up to the length of the log.
\<close>

theorem event_numbers_gap_free:
  assumes "games (run cfg (Handler wl r) ops) gid = Some g"
  shows "map Number (Events g) = map int [1..<Suc (length (Events g))] \<and>
         (\<forall>n. fst (eventsSince g n) = filter (\<lambda>e. n < Number e) (Events g) \<and>
              fst (eventsSince g n) = drop (nat n) (Events g) \<and>
              map Number (fst (eventsSince g n)) = map int [Suc (nat n)..<Suc (length (Events g))])"
proof -
  have "\<forall>gid g. games (Handler wl r) gid = Some g \<longrightarrow> numbered (Events g)"
    by (simp add: Handler_def)
  from run_numbered [OF this] assms have num: "numbered (Events g)" by blast
  then have "map Number (Events g) = map int [Suc 0..<Suc 0 + length (Events g)]"
    by (simp add: numbered_def)
  from since_drop [OF this] have drop: "\<And>n. filter (\<lambda>e. n < Number e) (Events g) = drop (nat n) (Events g)"
    by simp
  show ?thesis
    using num drop numbered_drop [OF num] by (simp add: eventsSince_def numbered_def)
qed


lemma demo_run_game:
  "games (run demo_cfg (Handler [] (\<lambda>i. 7)) demo_run) ''g'' = Some demo_played"
  by (simp add: run_def demo_run_def demo_played_def demo_cfg_def demo_create_def demo_action_def
      demo_chat_def demo_guess_def Handler_def handleNewGame_def createGame_def handleEndTurn_def
      handleChat_def handleGuess_def ReconstructGame_def NewState_def BoardGenerator_def
      shuffle_def Intn_def Int63_def swap_def markSeen_def addEvent_def notifyAll_def guess_def
      Let_def)

theorem event_numbers_gap_free_witness:
  "games (run demo_cfg (Handler [] (\<lambda>i. 7)) demo_run) ''g'' = Some demo_played \<and>
   map Number (Events demo_played) = [1, 2, 3] \<and>
   fst (eventsSince demo_played 1) =
     [\<lparr>Number = 2, Type = ''chat'', Team = 2, PlayerID = ''p2'', Name = ''Bob'',
       Message = ''hi'', Index = 0\<rparr>,
      \<lparr>Number = 3, Type = ''guess'', Team = 1, PlayerID = ''p2'', Name = ''Bob'',
       Message = [], Index = 0\<rparr>]"
  using event_numbers_gap_free [OF demo_run_game] demo_run_game
  by (simp add: demo_played_def)

section \<open>Session ids\<close>

text \<open>No session has the empty id: every handler that stores a game refuses it.\<close>

lemma serve_no_empty_session:
  "games h [] = None \<Longrightarrow> games (serve cfg h op) [] = None"
proof (cases op)
  case (OpIndex fuel)
  assume "games h [] = None"
  then show ?thesis unfolding OpIndex
    by (auto simp: handleIndex_def split: outcome.splits dest: index_loop_games)
next
  case (OpNewGame now req) 
  assume "games h [] = None"
  then show ?thesis unfolding OpNewGame
    by (auto simp: handleNewGame_def createGame_def  Let_def 
        split: option.splits if_splits prod.splits)
next
  case (OpGuess now1 now2 req)
  assume "games h [] = None"
  then show ?thesis unfolding OpGuess
    by (auto simp: handleGuess_def Let_def split: option.splits if_splits sum.splits)
next
  case (OpEndTurn now req)
  assume "games h [] = None"
  then show ?thesis unfolding OpEndTurn
    by (auto simp: handleEndTurn_def Let_def split: option.splits if_splits)
next
  case (OpChat now req)
  assume "games h [] = None"
  then show ?thesis unfolding OpChat
    by (auto simp: handleChat_def Let_def split: option.splits if_splits)
next
  case (OpEvents now req)
  assume "games h [] = None"
  then show ?thesis unfolding OpEvents
    by (auto simp: handleEvents_def Let_def eventsSince_def split: option.splits if_splits)
next
  case (OpPing now req)
  assume "games h [] = None"
  then show ?thesis unfolding OpPing
    by (auto simp: handlePing_def Let_def split: option.splits if_splits)
next
  case (OpSweep now clock)
  assume "games h [] = None"
  then show ?thesis unfolding OpSweep
    by (auto simp: sweep_def)
qed

lemma no_empty_session: "games (run cfg (Handler wl r) ops) [] = None"
proof -
  have "games h [] = None \<Longrightarrow> games (foldl (serve cfg) h ops) [] = None" for h
    by (induction ops arbitrary: h) (simp_all add: serve_no_empty_session)
  then show ?thesis by (simp add: run_def Handler_def)
qed

section \<open>The generated board\<close>

lemma Intn_less: "0 < n \<Longrightarrow> fst (Intn r n) < n"
  by (simp add: Intn_def nat_less_iff)

lemma length_swap: "length (swap xs i j) = length xs"
  by (simp add: swap_def)

lemma mset_swap_list: "i < length xs \<Longrightarrow> j < length xs \<Longrightarrow> mset (swap xs i j) = mset xs"
  unfolding swap_def by (rule mset_swap)

lemma mset_fisher_yates:
  "i < length xs \<Longrightarrow> mset (fst (fisher_yates i r xs)) = mset xs"
proof (induction i arbitrary: r xs)
  case 0
  then show ?case by simp
next
  case (Suc i)
  obtain j r' where draw: "Intn r (Suc (Suc i)) = (j, r')" by (cases "Intn r (Suc (Suc i))")
  have "j < Suc (Suc i)" using Intn_less [of "Suc (Suc i)" r] draw by simp
  then have j: "j < length xs" using Suc.prems by simp
  have "mset (fst (fisher_yates i r' (swap xs (Suc i) j))) = mset (swap xs (Suc i) j)"
    using Suc.prems by (intro Suc.IH) (simp add: length_swap)
  then show ?case
    using Suc.prems j by (simp add: draw mset_swap_list)
qed

lemma mset_shuffle: "mset (fst (shuffle r xs)) = mset xs"
proof (cases xs)
  case Nil
  then show ?thesis by (simp add: shuffle_def)
next
  case (Cons x xs')
  then show ?thesis by (simp add: shuffle_def mset_fisher_yates)
qed

lemma length_shuffle: "length (fst (shuffle r xs)) = length xs"
  using mset_shuffle [of r xs] by (metis size_mset)

lemma shuffle_upt:
  "distinct (fst (shuffle r [0..<n])) \<and> set (fst (shuffle r [0..<n])) = {0..<n}"
proof -
  have m: "mset (fst (shuffle r [0..<n])) = mset [0..<n]" by (rule mset_shuffle)
  have "distinct (fst (shuffle r [0..<n]))"
    using mset_eq_imp_distinct_iff [OF m] by simp
  moreover have "set (fst (shuffle r [0..<n])) = {0..<n}"
    using mset_eq_setD [OF m] by simp
  ultimately show ?thesis by simp
qed

lemma distinct_map_nth:
  "distinct ws \<Longrightarrow> distinct idx \<Longrightarrow> \<forall>i \<in> set idx. i < length ws \<Longrightarrow>
   distinct (map ((!) ws) idx)"
  by (auto simp: distinct_map inj_on_def nth_eq_iff_index_eq)

text \<open>
  C4, as the board generator of the spec has it. For every seed and every word list
  with at least as many words as the colour distribution has colours, the board has
  one tile per colour, the words of the tiles are the words at pairwise different
  positions of the word list, so they are members of the list and are different words
  when the list repeats no word, and the colours of the tiles are the colour
  distribution as a multiset. No tile is revealed. The board is a function of the seed
  and the word list: equal arguments give the same tiles at every position, and the
  game reconstructed from a seed and a word list has that board.
\<close>

theorem board_generator_tiles:
  assumes "length (colorDistribution cfg) \<le> length ws"
  shows "length (BoardGenerator cfg s ws) = length (colorDistribution cfg) \<and>
         (\<exists>idx. distinct idx \<and> (\<forall>i \<in> set idx. i < length ws) \<and>
                map Word (BoardGenerator cfg s ws) = map ((!) ws) idx) \<and>
         set (map Word (BoardGenerator cfg s ws)) \<subseteq> set ws \<and>
         (distinct ws \<longrightarrow> distinct (map Word (BoardGenerator cfg s ws))) \<and>
         mset (map Color (BoardGenerator cfg s ws)) = mset (colorDistribution cfg) \<and>
         (\<forall>t \<in> set (BoardGenerator cfg s ws). \<not> Revealed t) \<and>
         (\<forall>s' ws'. s' = s \<and> ws' = ws \<longrightarrow> BoardGenerator cfg s' ws' = BoardGenerator cfg s ws) \<and>
         Tiles (ReconstructGame cfg (NewState s ws)) = BoardGenerator cfg s ws"
proof -
  let ?n = "length (colorDistribution cfg)"
  obtain perm r1 where p: "shuffle (NewSource cfg s) [0..<length ws] = (perm, r1)"
    by (cases "shuffle (NewSource cfg s) [0..<length ws]")
  obtain colors r2 where c: "shuffle r1 (colorDistribution cfg) = (colors, r2)"
    by (cases "shuffle r1 (colorDistribution cfg)")
  let ?idx = "take ?n perm"
  have tiles: "BoardGenerator cfg s ws =
      map (\<lambda>(i, c). \<lparr>Word = ws ! i, Color = c, Revealed = False\<rparr>) (zip ?idx colors)"
    by (simp add: BoardGenerator_def p c)
  have lp: "length perm = length ws"
    using length_shuffle [of "NewSource cfg s" "[0..<length ws]"] by (simp add: p)
  have lc: "length colors = ?n"
    using length_shuffle [of r1 "colorDistribution cfg"] by (simp add: c)
  have li: "length ?idx = ?n" using assms lp by simp
  have dp: "distinct perm" and sp: "set perm = {0..<length ws}"
    using shuffle_upt [of "NewSource cfg s" "length ws"] by (simp_all add: p)
  have di: "distinct ?idx" using dp by simp
  have bi: "\<forall>i \<in> set ?idx. i < length ws"
    using sp set_take_subset [of ?n perm] by auto
  have same_len: "length ?idx = length colors" using li lc by simp
  have "map Word (BoardGenerator cfg s ws) = map ((!) ws) (map fst (zip ?idx colors))"
    by (simp add: tiles comp_def case_prod_unfold)
  then have words: "map Word (BoardGenerator cfg s ws) = map ((!) ws) ?idx"
    by (simp only: map_fst_zip [OF same_len])
  have "map Color (BoardGenerator cfg s ws) = map snd (zip ?idx colors)"
    by (simp add: tiles comp_def case_prod_unfold)
  then have cols: "map Color (BoardGenerator cfg s ws) = colors"
    by (simp only: map_snd_zip [OF same_len])
  have len: "length (BoardGenerator cfg s ws) = ?n"
    unfolding tiles using li lc by simp
  have mc: "mset colors = mset (colorDistribution cfg)"
    using mset_shuffle [of r1 "colorDistribution cfg"] by (simp add: c)
  have sub: "set (map Word (BoardGenerator cfg s ws)) \<subseteq> set ws"
    unfolding words using bi by auto
  have dist: "distinct ws \<longrightarrow> distinct (map Word (BoardGenerator cfg s ws))"
    unfolding words using di bi by (simp add: distinct_map_nth)
  have unrev: "\<forall>t \<in> set (BoardGenerator cfg s ws). \<not> Revealed t"
    unfolding tiles by auto
  have ex: "\<exists>idx. distinct idx \<and> (\<forall>i \<in> set idx. i < length ws) \<and>
                map Word (BoardGenerator cfg s ws) = map ((!) ws) idx"
    using di bi words by blast
  have game: "Tiles (ReconstructGame cfg (NewState s ws)) = BoardGenerator cfg s ws"
    by (simp add: ReconstructGame_def NewState_def)
  show ?thesis using len ex sub dist cols mc unrev game by simp
qed

theorem board_generator_tiles_witness:
  "length (BoardGenerator demo_cfg 3 [''ant'', ''bee'', ''cat'']) = 2 \<and>
   set (map Word (BoardGenerator demo_cfg 3 [''ant'', ''bee'', ''cat''])) \<subseteq> {''ant'', ''bee'', ''cat''} \<and>
   distinct (map Word (BoardGenerator demo_cfg 3 [''ant'', ''bee'', ''cat''])) \<and>
   mset (map Color (BoardGenerator demo_cfg 3 [''ant'', ''bee'', ''cat''])) = mset [1, 2]"
  using board_generator_tiles
    [where cfg = demo_cfg and s = 3 and ws = "[''ant'', ''bee'', ''cat'']"]
  by (simp add: demo_cfg_def)

text \<open>
  As the specification states it, the property fails for a word list that repeats a word, which a create
  request may carry: the two tiles have the same word.
\<close>

theorem board_generator_repeated_word_counterexample:
  "length (colorDistribution demo_cfg) \<le> length [''ant'', ''ant''] \<and>
   map Word (BoardGenerator demo_cfg 7 [''ant'', ''ant'']) = [''ant'', ''ant''] \<and>
   \<not> distinct (map Word (BoardGenerator demo_cfg 7 [''ant'', ''ant'']))"
  by (simp add: BoardGenerator_def demo_cfg_def shuffle_def Intn_def swap_def)

end
